theory Spec2Isabelle
  imports Main "HOL-Library.Multiset"
begin

section \<open>Data model\<close>

text \<open>
  The blog application keeps two tables that the views of \<^verbatim>\<open>blog/views.py\<close> touch:
  the users of \<^verbatim>\<open>django.contrib.auth\<close> and the posts of the blog. Rows are kept in a
  list, in table order; the primary key is a field of the row.
\<close>

record user =
  uid :: nat
  username :: string
  email :: string
  credential :: string

text \<open>
  Modelled from the spec: the \<^verbatim>\<open>Post\<close> model class (\<^verbatim>\<open>blog/models.py\<close>) is not among the
  sources. The spec gives it a title, a content, an author (a reference to one user) and a
  creation timestamp; the views address a post by its primary key. The author is stored
  as the user's primary key, which is what Django compares in \<^verbatim>\<open>user == post.author\<close>.
\<close>

record post =
  pid :: nat
  title :: string
  content :: string
  author :: nat
  date_posted :: int

text \<open>
  Modelled from the spec: the \<^verbatim>\<open>Profile\<close> model class (\<^verbatim>\<open>users/models.py\<close>) is not among
  the sources. A profile refers to its user and holds an optional image reference;
  without one (\<open>None\<close>) the placeholder is shown.
\<close>

record profile =
  profile_user :: nat
  image :: "string option"

record db =
  users :: "user list"
  profiles :: "profile list"
  posts :: "post list"
  next_uid :: nat
  next_pid :: nat

text \<open>\<^verbatim>\<open>request.user\<close>: the anonymous user, or a logged-in user given by primary key.\<close>

datatype actor = Anonymous | Authenticated nat

fun is_authenticated :: "actor \<Rightarrow> bool" where
  "is_authenticated Anonymous = False"
| "is_authenticated (Authenticated u) = True"

text \<open>
  The two fields of the post form (\<^verbatim>\<open>fields = ['title', 'content']\<close>) and the two request
  methods the templates and the tests issue.
\<close>

record post_form =
  form_title :: string
  form_content :: string

datatype http_method = GET | POST post_form

datatype target = LoginUrl | AbsoluteUrl nat | Path string

datatype page =
    ListPage "post list"
  | DetailPage post
  | FormPage "post option"
  | ConfirmDeletePage post

datatype response = Render page | Redirect target | Forbidden | NotFound

fun status_code :: "response \<Rightarrow> nat" where
  "status_code (Render pg) = 200"
| "status_code (Redirect t) = 302"
| "status_code Forbidden = 403"
| "status_code NotFound = 404"

section \<open>The access mixins\<close>

text \<open>
  \<^verbatim>\<open>AccessMixin.handle_no_permission\<close> with the default \<^verbatim>\<open>raise_exception = False\<close>:
  a logged-in user gets \<^verbatim>\<open>PermissionDenied\<close> (403), anybody else is sent to the login page.
\<close>

definition handle_no_permission :: "actor \<Rightarrow> response" where
  "handle_no_permission a = (if is_authenticated a then Forbidden else Redirect LoginUrl)"

text \<open>
  \<^verbatim>\<open>LoginRequiredMixin.dispatch\<close>: without a logged-in user the request ends in
  \<^verbatim>\<open>handle_no_permission\<close>; otherwise the next \<^verbatim>\<open>dispatch\<close> of the class runs.
\<close>

definition login_required :: "actor \<Rightarrow> db \<Rightarrow> (response \<times> db) \<Rightarrow> response \<times> db" where
  "login_required a d inner =
     (if \<not> is_authenticated a then (handle_no_permission a, d) else inner)"

text \<open>
  \<^verbatim>\<open>SingleObjectMixin.get_object\<close>: the row with the primary key of the URL; \<open>None\<close>
  stands for the \<^verbatim>\<open>Http404\<close> it raises when there is none.
\<close>

definition get_object :: "db \<Rightarrow> nat \<Rightarrow> post option" where
  "get_object d pk = find (\<lambda>q. pid q = pk) (posts d)"

text \<open>
  \<^verbatim>\<open>PostUpdateView.test_func\<close> and \<^verbatim>\<open>PostDeleteView.test_func\<close>: the requester must be
  the post's author. \<open>None\<close> is the \<^verbatim>\<open>Http404\<close> of \<^verbatim>\<open>get_object\<close>.
\<close>

definition post_update_test_func :: "db \<Rightarrow> actor \<Rightarrow> nat \<Rightarrow> bool option" where
  "post_update_test_func d a pk =
     (case get_object d pk of
        None \<Rightarrow> None
      | Some p \<Rightarrow> (if a = Authenticated (author p) then Some True else Some False))"

definition post_delete_test_func :: "db \<Rightarrow> actor \<Rightarrow> nat \<Rightarrow> bool option" where
  "post_delete_test_func d a pk =
     (case get_object d pk of
        None \<Rightarrow> None
      | Some p \<Rightarrow> (if a = Authenticated (author p) then Some True else Some False))"

text \<open>
  \<^verbatim>\<open>UserPassesTestMixin.dispatch\<close>: a failed test ends in \<^verbatim>\<open>handle_no_permission\<close>, an
  exception of the test (the 404) ends the request, a passed test lets the view run.
\<close>

definition user_passes_test ::
  "actor \<Rightarrow> db \<Rightarrow> bool option \<Rightarrow> (response \<times> db) \<Rightarrow> response \<times> db" where
  "user_passes_test a d test inner =
     (case test of
        None \<Rightarrow> (NotFound, d)
      | Some ok \<Rightarrow> (if \<not> ok then (handle_no_permission a, d) else inner))"

section \<open>Writing posts\<close>

text \<open>
  \<^verbatim>\<open>Model.save\<close> of a new row takes the next key of the table's sequence; of an existing
  row, it rewrites the row with that key. \<^verbatim>\<open>Model.delete\<close> removes the row.
\<close>

definition insert_post :: "db \<Rightarrow> post \<Rightarrow> post \<times> db" where
  "insert_post d p =
     (let q = p\<lparr>pid := next_pid d\<rparr>
      in (q, d\<lparr>posts := posts d @ [q], next_pid := Suc (next_pid d)\<rparr>))"

definition update_post :: "db \<Rightarrow> post \<Rightarrow> db" where
  "update_post d p = d\<lparr>posts := map (\<lambda>q. if pid q = pid p then p else q) (posts d)\<rparr>"

definition delete_post :: "db \<Rightarrow> post \<Rightarrow> db" where
  "delete_post d p = d\<lparr>posts := filter (\<lambda>q. pid q \<noteq> pid p) (posts d)\<rparr>"

text \<open>
  The validation of the model form depends on the field declarations of the absent
  \<^verbatim>\<open>Post\<close> class, so it is a parameter \<open>clean\<close> of the views: \<open>None\<close> for an invalid form,
  the cleaned data otherwise. \<open>construct_instance\<close> copies the cleaned data into the
  instance, as the form does while it validates.
\<close>

definition construct_instance :: "post_form \<Rightarrow> post \<Rightarrow> post" where
  "construct_instance f p = p\<lparr>title := form_title f, content := form_content f\<rparr>"

text \<open>
  \<^verbatim>\<open>PostCreateView.form_valid\<close>: the author becomes the requester, then the form is saved
  and the response redirects to the new post. The timestamp of a new post is the server's
  clock \<open>now\<close>.
\<close>

definition post_create_form_valid :: "db \<Rightarrow> nat \<Rightarrow> post \<Rightarrow> response \<times> db" where
  "post_create_form_valid d u inst =
     (let inst' = inst\<lparr>author := u\<rparr>;
          (obj, d') = insert_post d inst'
      in (Redirect (AbsoluteUrl (pid obj)), d'))"

definition post_create_view ::
  "(post_form \<Rightarrow> post_form option) \<Rightarrow> int \<Rightarrow> db \<Rightarrow> actor \<Rightarrow> http_method \<Rightarrow> response \<times> db" where
  "post_create_view clean now d a m =
     login_required a d
       (case a of
          Anonymous \<Rightarrow> (handle_no_permission a, d)
        | Authenticated u \<Rightarrow>
            (case m of
               GET \<Rightarrow> (Render (FormPage None), d)
             | POST f \<Rightarrow>
                 (case clean f of
                    None \<Rightarrow> (Render (FormPage None), d)
                  | Some c \<Rightarrow>
                      post_create_form_valid d u
                        (construct_instance c
                           \<lparr>pid = 0, title = [], content = [], author = 0, date_posted = now\<rparr>))))"

text \<open>
  \<^verbatim>\<open>PostUpdateView\<close>: login check, then the author test, then the form. Its
  \<^verbatim>\<open>form_valid\<close> assigns the requester as author again before saving. In this view and
  in the create view the case on the requester only reads the user's primary key: the
  login check has answered the anonymous requester before.
\<close>

definition post_update_form_valid :: "db \<Rightarrow> nat \<Rightarrow> post \<Rightarrow> response \<times> db" where
  "post_update_form_valid d u inst =
     (let inst' = inst\<lparr>author := u\<rparr>
      in (Redirect (AbsoluteUrl (pid inst')), update_post d inst'))"

definition post_update_view ::
  "(post_form \<Rightarrow> post_form option) \<Rightarrow> db \<Rightarrow> actor \<Rightarrow> nat \<Rightarrow> http_method \<Rightarrow> response \<times> db" where
  "post_update_view clean d a pk m =
     login_required a d
       (user_passes_test a d (post_update_test_func d a pk)
          (case a of
             Anonymous \<Rightarrow> (handle_no_permission a, d)
           | Authenticated u \<Rightarrow>
               (case get_object d pk of
                  None \<Rightarrow> (NotFound, d)
                | Some obj \<Rightarrow>
                    (case m of
                       GET \<Rightarrow> (Render (FormPage (Some obj)), d)
                     | POST f \<Rightarrow>
                         (case clean f of
                            None \<Rightarrow> (Render (FormPage (Some obj)), d)
                          | Some c \<Rightarrow> post_update_form_valid d u (construct_instance c obj))))))"

text \<open>
  \<^verbatim>\<open>PostDeleteView\<close>: the same two checks; a GET asks for confirmation, a POST deletes the
  post and redirects to \<^verbatim>\<open>success_url = '/'\<close>.
\<close>

definition post_delete_view :: "db \<Rightarrow> actor \<Rightarrow> nat \<Rightarrow> http_method \<Rightarrow> response \<times> db" where
  "post_delete_view d a pk m =
     login_required a d
       (user_passes_test a d (post_delete_test_func d a pk)
          (case get_object d pk of
             None \<Rightarrow> (NotFound, d)
           | Some obj \<Rightarrow>
               (case m of
                  GET \<Rightarrow> (Render (ConfirmDeletePage obj), d)
                | POST f \<Rightarrow> (Redirect (Path ''/''), delete_post d obj))))"

section \<open>Reading posts\<close>

text \<open>
  \<^verbatim>\<open>order_by('-date_posted')\<close> and \<^verbatim>\<open>ordering = ['-date_posted']\<close>: newest first. The
  database leaves the order of equal timestamps open; the model keeps table order there.
\<close>

definition order_by_date_posted_desc :: "post list \<Rightarrow> post list" where
  "order_by_date_posted_desc ps = sort_key (\<lambda>p. - date_posted p) ps"

text \<open>
  The paginator of \<^verbatim>\<open>ListView\<close> with \<^verbatim>\<open>paginate_by = 8\<close>, no orphans and an empty first
  page allowed: the number of pages is the count divided by the page size, rounded up,
  and at least one; a page number outside \<open>1 .. num_pages\<close> is an \<^verbatim>\<open>InvalidPage\<close>.
\<close>

definition paginate_by :: nat where
  "paginate_by = 8"

definition num_pages :: "nat \<Rightarrow> nat" where
  "num_pages cnt = (max 1 cnt + (paginate_by - 1)) div paginate_by"

definition paginator_page :: "'a list \<Rightarrow> int \<Rightarrow> 'a list option" where
  "paginator_page xs n =
     (if n < 1 then None
      else if int (num_pages (length xs)) < n then None
      else Some (take paginate_by (drop ((nat n - 1) * paginate_by) xs)))"

text \<open>
  The \<^verbatim>\<open>page\<close> parameter of the request: absent (page 1), a number, the word
  \<^verbatim>\<open>last\<close>, or anything else. \<^verbatim>\<open>paginate_queryset\<close> turns the last case and every
  invalid page into \<^verbatim>\<open>Http404\<close>, here \<open>None\<close>.
\<close>

datatype page_arg = NoPageArg | PageNumber int | PageLast | PageInvalid

definition paginate_queryset :: "post list \<Rightarrow> page_arg \<Rightarrow> post list option" where
  "paginate_queryset qs pa =
     (case pa of
        NoPageArg \<Rightarrow> paginator_page qs 1
      | PageNumber n \<Rightarrow> paginator_page qs n
      | PageLast \<Rightarrow> paginator_page qs (int (num_pages (length qs)))
      | PageInvalid \<Rightarrow> None)"

definition list_response :: "post list option \<Rightarrow> response" where
  "list_response r = (case r of None \<Rightarrow> NotFound | Some ps \<Rightarrow> Render (ListPage ps))"

text \<open>\<^verbatim>\<open>home\<close>: every post, \<^verbatim>\<open>Post.objects.all()\<close>, handed to the template as it is.\<close>

definition home :: "db \<Rightarrow> actor \<Rightarrow> response" where
  "home d a = Render (ListPage (posts d))"

text \<open>\<^verbatim>\<open>PostListView\<close>: no access mixin; all posts, ordered, one page of them.\<close>

definition post_list_view :: "db \<Rightarrow> actor \<Rightarrow> page_arg \<Rightarrow> response" where
  "post_list_view d a pa =
     list_response (paginate_queryset (order_by_date_posted_desc (posts d)) pa)"

text \<open>
  \<^verbatim>\<open>UserPostListView.get_queryset\<close>: \<^verbatim>\<open>get_object_or_404\<close> on the username of the URL
  (\<open>None\<close> is its \<^verbatim>\<open>Http404\<close>), then that user's posts, newest first.
\<close>

definition get_user_or_404 :: "db \<Rightarrow> string \<Rightarrow> user option" where
  "get_user_or_404 d name = find (\<lambda>u. username u = name) (users d)"

definition user_post_list_get_queryset :: "db \<Rightarrow> string \<Rightarrow> post list option" where
  "user_post_list_get_queryset d name =
     (case get_user_or_404 d name of
        None \<Rightarrow> None
      | Some u \<Rightarrow> Some (order_by_date_posted_desc (filter (\<lambda>p. author p = uid u) (posts d))))"

definition user_post_list_view :: "db \<Rightarrow> actor \<Rightarrow> string \<Rightarrow> page_arg \<Rightarrow> response" where
  "user_post_list_view d a name pa =
     (case user_post_list_get_queryset d name of
        None \<Rightarrow> NotFound
      | Some qs \<Rightarrow> list_response (paginate_queryset qs pa))"

text \<open>\<^verbatim>\<open>PostDetailView\<close>: no access mixin; the post of the URL, or 404.\<close>

definition post_detail_view :: "db \<Rightarrow> actor \<Rightarrow> nat \<Rightarrow> response" where
  "post_detail_view d a pk =
     (case get_object d pk of None \<Rightarrow> NotFound | Some obj \<Rightarrow> Render (DetailPage obj))"

section \<open>Registration and profile\<close>

text \<open>
  Modelled from the spec: the registration view, the forms and the profile view
  (\<^verbatim>\<open>users/views.py\<close>, \<^verbatim>\<open>users/forms.py\<close>, \<^verbatim>\<open>users/models.py\<close>, \<^verbatim>\<open>users/signals.py\<close>) are
  not among the sources; only their tests are. The definitions of this section follow
  section 4.2 of the spec. The checks the spec names without defining them
  (well-formed username, syntactically valid email, password strength, valid image) and
  the credential hash are the fields of \<open>rules\<close>.
\<close>

record upload =
  file_name :: string
  file_content :: string
  content_type :: string

record rules =
  username_wf :: "string \<Rightarrow> bool"
  email_wf :: "string \<Rightarrow> bool"
  password_strong :: "string \<Rightarrow> bool"
  make_password :: "string \<Rightarrow> string"
  image_wf :: "upload \<Rightarrow> bool"

record register_form =
  reg_username :: string
  reg_email :: string
  reg_password1 :: string
  reg_password2 :: string

datatype field = UsernameField | EmailField | Password1Field | Password2Field | ImageField

text \<open>The request's surroundings: the database, who is logged in, the messages shown.\<close>

record site =
  store :: db
  session :: actor
  messages :: "string list"

text \<open>
  Modelled from the spec: the validation of a registration, one message per failed rule,
  keyed by the field. The spec quotes the text of the email message; the other texts
  only name the rule that failed.
\<close>

definition register_errors :: "rules \<Rightarrow> db \<Rightarrow> register_form \<Rightarrow> (field \<times> string) list" where
  "register_errors r d f =
     (if username_wf r (reg_username f) then []
      else [(UsernameField, ''Enter a valid username.'')]) @
     (if reg_username f \<in> set (map username (users d))
      then [(UsernameField, ''A user with that username already exists.'')] else []) @
     (if email_wf r (reg_email f) then []
      else [(EmailField, ''Enter a valid email address.'')]) @
     (if reg_email f \<in> set (map email (users d))
      then [(EmailField, ''A user with that email already exists.'')] else []) @
     (if password_strong r (reg_password1 f) then []
      else [(Password1Field, ''This password is too weak.'')]) @
     (if reg_password1 f = reg_password2 f then []
      else [(Password2Field, ''The two password fields do not match.'')])"

definition confirmation :: string where
  "confirmation = ''Your account has been created! You are now able to login''"

text \<open>
  Modelled from the spec: the paired creation. The user and its profile are written in
  one step; the profile's image is the placeholder, \<open>None\<close>.
\<close>

definition create_user_with_profile :: "rules \<Rightarrow> db \<Rightarrow> register_form \<Rightarrow> user \<times> db" where
  "create_user_with_profile r d f =
     (let u = \<lparr>uid = next_uid d, username = reg_username f, email = reg_email f,
               credential = make_password r (reg_password1 f)\<rparr>
      in (u, d\<lparr>users := users d @ [u],
               profiles := profiles d @ [\<lparr>profile_user = uid u, image = None\<rparr>],
               next_uid := Suc (next_uid d)\<rparr>))"

text \<open>
  Modelled from the spec: \<^verbatim>\<open>register(username, email, password, password_confirmation)
  -> Result<User, ValidationErrors>\<close>. A failure writes nothing; a success creates the
  pair and adds the confirmation message, and leaves the session alone.
\<close>

definition register ::
  "rules \<Rightarrow> site \<Rightarrow> register_form \<Rightarrow> ((field \<times> string) list + user) \<times> site" where
  "register r s f =
     (case register_errors r (store s) f of
        [] \<Rightarrow>
          (let (u, d') = create_user_with_profile r (store s) f
           in (Inr u, s\<lparr>store := d', messages := messages s @ [confirmation]\<rparr>))
      | e # es \<Rightarrow> (Inl (e # es), s))"

text \<open>
  Modelled from the spec: the profile-image update of user \<open>u\<close>. The upload is optional;
  a payload that is not an image is rejected and nothing is written.
\<close>

definition set_profile_image :: "db \<Rightarrow> nat \<Rightarrow> string \<Rightarrow> db" where
  "set_profile_image d u ref =
     d\<lparr>profiles := map (\<lambda>p. if profile_user p = u then p\<lparr>image := Some ref\<rparr> else p) (profiles d)\<rparr>"

definition update_profile_image ::
  "rules \<Rightarrow> db \<Rightarrow> nat \<Rightarrow> upload option \<Rightarrow> ((field \<times> string) list + unit) \<times> db" where
  "update_profile_image r d u up =
     (case up of
        None \<Rightarrow> (Inr (), d)
      | Some f \<Rightarrow>
          (if image_wf r f then (Inr (), set_profile_image d u (file_name f))
           else (Inl [(ImageField, ''Upload a valid image.'')], d)))"

section \<open>Properties of a listing\<close>

text \<open>
  What the listing claims speak of: a list of posts is newest first when no post comes
  before a post with a later timestamp; page \<open>n\<close>, counted from one, of a list is its
  \<open>n\<close>-th run of \<open>paginate_by\<close> elements.
\<close>

definition newest_first :: "post list \<Rightarrow> bool" where
  "newest_first ps = sorted_wrt (\<lambda>p q. date_posted q \<le> date_posted p) ps"

definition page_slice :: "'a list \<Rightarrow> nat \<Rightarrow> 'a list" where
  "page_slice xs n = take paginate_by (drop ((n - 1) * paginate_by) xs)"

section \<open>Sample data\<close>

text \<open>
  The data of the test suites: \<^verbatim>\<open>testuser\<close> with the post \<^verbatim>\<open>Test Post\<close>, a second user
  \<^verbatim>\<open>anotheruser\<close>, the form of the update tests, and a form check that wants a title.
\<close>

definition test_post :: post where
  "test_post = \<lparr>pid = 1, title = ''Test Post'', content = ''This is a test post content.'',
                 author = 1, date_posted = 100\<rparr>"

definition test_db :: db where
  "test_db =
     \<lparr>users = [\<lparr>uid = 1, username = ''testuser'', email = ''testuser@example.com'',
                credential = ''hash:testpassword''\<rparr>,
               \<lparr>uid = 2, username = ''anotheruser'', email = [],
                credential = ''hash:anotherpassword''\<rparr>],
      profiles = [\<lparr>profile_user = 1, image = None\<rparr>, \<lparr>profile_user = 2, image = None\<rparr>],
      posts = [test_post],
      next_uid = 3,
      next_pid = 2\<rparr>"

definition updated_form :: post_form where
  "updated_form = \<lparr>form_title = ''Updated Post'', form_content = ''Updated Post Content''\<rparr>"

definition title_required :: "post_form \<Rightarrow> post_form option" where
  "title_required f = (if form_title f = [] then None else Some f)"

text \<open>Nine posts of one author, with timestamps 1 to 9 in table order.\<close>

definition nine_posts :: db where
  "nine_posts =
     test_db\<lparr>posts := map (\<lambda>i. \<lparr>pid = i, title = ''Post'', content = [], author = 1,
                                 date_posted = int i\<rparr>) [1, 2, 3, 4, 5, 6, 7, 8, 9],
             next_pid := 10\<rparr>"

text \<open>
  Sample rules for the registration: an address needs an \<open>@\<close>, a username and a
  password must not be empty, an image starts with the JPEG marker \<open>JFIF\<close>.
\<close>

definition sample_rules :: rules where
  "sample_rules =
     \<lparr>username_wf = (\<lambda>n. n \<noteq> []),
      email_wf = (\<lambda>e. CHR ''@'' \<in> set e),
      password_strong = (\<lambda>w. w \<noteq> []),
      make_password = (\<lambda>w. ''hash:'' @ w),
      image_wf = (\<lambda>f. take 4 (file_content f) = ''JFIF'')\<rparr>"

definition empty_site :: site where
  "empty_site =
     \<lparr>store = \<lparr>users = [], profiles = [], posts = [], next_uid = 1, next_pid = 1\<rparr>,
      session = Anonymous,
      messages = []\<rparr>"

definition newuser_form :: register_form where
  "newuser_form =
     \<lparr>reg_username = ''newuser'', reg_email = ''newuser@example.com'',
      reg_password1 = ''newpassword123'', reg_password2 = ''newpassword123''\<rparr>"

definition invalid_email_form :: register_form where
  "invalid_email_form =
     \<lparr>reg_username = ''newuser'', reg_email = ''invalidemail'',
      reg_password1 = ''newpassword123'', reg_password2 = ''newpassword123''\<rparr>"

definition test_image :: upload where
  "test_image =
     \<lparr>file_name = ''test_image.jpg'', file_content = ''file_content'',
      content_type = ''image/jpeg''\<rparr>"

section \<open>Ownership enforcement\<close>

lemmas view_defs = post_update_view_def post_delete_view_def post_create_view_def
  login_required_def user_passes_test_def post_update_test_func_def post_delete_test_func_def
  handle_no_permission_def

text \<open>
  C1. A logged-in user who is not the author of an existing post gets the forbidden
  response (status 403) from the update view and from the delete view, whatever the
  method and the form, and the database, hence the post, is what it was.
\<close>

theorem non_author_edit_delete_forbidden:
  assumes "get_object d pk = Some p" and "u \<noteq> author p"
  shows "post_update_view clean d (Authenticated u) pk m = (Forbidden, d)
       \<and> post_delete_view d (Authenticated u) pk m = (Forbidden, d)
       \<and> status_code Forbidden = 403
       \<and> get_object (snd (post_update_view clean d (Authenticated u) pk m)) pk = Some p
       \<and> get_object (snd (post_delete_view d (Authenticated u) pk m)) pk = Some p"
  using assms
  by (simp add: view_defs)

text \<open>
  The test \<^verbatim>\<open>test_post_update_view_not_authenticated\<close>: \<^verbatim>\<open>anotheruser\<close> posts the update
  form for the post of \<^verbatim>\<open>testuser\<close>; the title stays \<^verbatim>\<open>Test Post\<close>.
\<close>

theorem non_author_edit_delete_forbidden_witness:
  "get_object test_db 1 = Some test_post \<and> (2::nat) \<noteq> author test_post
   \<and> post_update_view title_required test_db (Authenticated 2) 1 (POST updated_form)
       = (Forbidden, test_db)
   \<and> post_delete_view test_db (Authenticated 2) 1 (POST updated_form) = (Forbidden, test_db)
   \<and> title (the (get_object test_db 1)) = ''Test Post''"
  using non_author_edit_delete_forbidden
          [of test_db 1 test_post 2 title_required "POST updated_form"]
  by (simp add: get_object_def test_db_def test_post_def)

text \<open>
  C2. An anonymous request to the create view, whatever its method and form, is
  redirected (status 302) to the login page and leaves the database as it was, so no
  post is created, and it is never answered with the forbidden response. A logged-in
  user who is not the author of the post gets the forbidden response (status 403) from
  the update and the delete view; and no request of a logged-in user to these two views
  is redirected to the login page.
\<close>

theorem anonymous_redirect_non_owner_forbidden:
  "post_create_view clean now d Anonymous m = (Redirect LoginUrl, d)
   \<and> status_code (Redirect LoginUrl) = 302
   \<and> (\<forall>u pk p. get_object d pk = Some p \<and> u \<noteq> author p \<longrightarrow>
         fst (post_update_view clean d (Authenticated u) pk m) = Forbidden
       \<and> fst (post_delete_view d (Authenticated u) pk m) = Forbidden
       \<and> status_code Forbidden = 403)
   \<and> (\<forall>u pk. fst (post_update_view clean d (Authenticated u) pk m) \<noteq> Redirect LoginUrl
       \<and> fst (post_delete_view d (Authenticated u) pk m) \<noteq> Redirect LoginUrl)
   \<and> fst (post_create_view clean now d Anonymous m) \<noteq> Forbidden"
  by (auto simp: view_defs post_update_form_valid_def split: option.splits http_method.splits)

theorem anonymous_redirect_non_owner_forbidden_witness:
  "post_create_view title_required 200 test_db Anonymous (POST updated_form)
       = (Redirect LoginUrl, test_db)
   \<and> posts test_db = [test_post]
   \<and> get_object test_db 1 = Some test_post \<and> (2::nat) \<noteq> author test_post
   \<and> fst (post_update_view title_required test_db (Authenticated 2) 1 (POST updated_form))
       = Forbidden
   \<and> fst (post_delete_view test_db (Authenticated 2) 1 (POST updated_form)) = Forbidden"
  using anonymous_redirect_non_owner_forbidden
          [of title_required 200 test_db "POST updated_form"]
  by (simp add: get_object_def test_db_def test_post_def)

section \<open>The author of a saved post\<close>

text \<open>
  C3. A valid form posted to the create view by a logged-in user appends a post whose
  author is that user; \<^verbatim>\<open>form_valid\<close> of either view overwrites the author of the
  instance, whatever it was, with the requester before the instance is written; and a
  valid form posted to the update view by the post's author writes the post with the
  requester as author.
\<close>

theorem author_stamped_on_create_and_edit:
  "(clean f = Some c \<longrightarrow>
      post_create_view clean now d (Authenticated u) (POST f) =
        (Redirect (AbsoluteUrl (next_pid d)),
         d\<lparr>posts := posts d @ [\<lparr>pid = next_pid d, title = form_title c,
                                content = form_content c, author = u, date_posted = now\<rparr>],
           next_pid := Suc (next_pid d)\<rparr>))
   \<and> post_create_form_valid d u inst =
        (Redirect (AbsoluteUrl (next_pid d)),
         d\<lparr>posts := posts d @ [inst\<lparr>author := u, pid := next_pid d\<rparr>],
           next_pid := Suc (next_pid d)\<rparr>)
   \<and> post_update_form_valid d u inst =
        (Redirect (AbsoluteUrl (pid inst)), update_post d (inst\<lparr>author := u\<rparr>))
   \<and> (clean f = Some c \<and> get_object d pk = Some p \<and> author p = u \<longrightarrow>
        post_update_view clean d (Authenticated u) pk (POST f) =
          (Redirect (AbsoluteUrl (pid p)),
           update_post d (p\<lparr>title := form_title c, content := form_content c, author := u\<rparr>)))"
  by (auto simp: view_defs post_update_form_valid_def post_create_form_valid_def
      insert_post_def construct_instance_def Let_def)

text \<open>
  The tests \<^verbatim>\<open>test_post_create_view_authenticated\<close> and
  \<^verbatim>\<open>test_post_update_view_authenticated\<close>, with \<^verbatim>\<open>testuser\<close> logged in.
\<close>

theorem author_stamped_on_create_and_edit_witness:
  "title_required updated_form = Some updated_form
   \<and> get_object test_db 1 = Some test_post \<and> author test_post = 1
   \<and> map author (posts (snd (post_create_view title_required 200 test_db (Authenticated 1)
                                 (POST updated_form)))) = [1, 1]
   \<and> map author (posts (snd (post_update_view title_required test_db (Authenticated 1) 1
                                 (POST updated_form)))) = [1]"
  using author_stamped_on_create_and_edit
          [of title_required updated_form updated_form 200 test_db 1 test_post 1]
  by (simp add: get_object_def test_db_def test_post_def title_required_def updated_form_def
      update_post_def)

section \<open>Editing as the author\<close>

text \<open>Looking a post up after a row has been rewritten.\<close>

lemma find_map_replace:
  "find (\<lambda>q. pid q = k) (map (\<lambda>q. if pid q = pid r then r else q) ps) =
     (if k = pid r then map_option (\<lambda>_. r) (find (\<lambda>q. pid q = k) ps)
      else find (\<lambda>q. pid q = k) ps)"
  by (induction ps) auto

lemma get_object_pid: "get_object d pk = Some p \<Longrightarrow> pid p = pk"
  by (auto simp: get_object_def find_Some_iff)

lemma get_object_update_post:
  "get_object (update_post d r) k =
     (if k = pid r then map_option (\<lambda>_. r) (get_object d k) else get_object d k)"
  by (simp add: get_object_def update_post_def find_map_replace)

text \<open>
  C4. For an existing post and its author: the update view lets the author in (a GET
  shows the form for the post), and a valid form posted by the author redirects to the
  post and rewrites its row with the cleaned title and content of the form; primary key,
  author and timestamp of the post are what they were, every other post is what it was,
  and no user and no post is added or removed.
\<close>

theorem author_edit_changes_title_and_content_only:
  assumes "get_object d pk = Some p" and "clean f = Some c"
  shows "post_update_view clean d (Authenticated (author p)) pk GET = (Render (FormPage (Some p)), d)
       \<and> post_update_view clean d (Authenticated (author p)) pk (POST f) =
           (Redirect (AbsoluteUrl pk),
            update_post d (p\<lparr>title := form_title c, content := form_content c\<rparr>))
       \<and> get_object (snd (post_update_view clean d (Authenticated (author p)) pk (POST f))) pk =
           Some \<lparr>pid = pid p, title = form_title c, content = form_content c,
                 author = author p, date_posted = date_posted p\<rparr>
       \<and> (\<forall>k. k \<noteq> pk \<longrightarrow>
             get_object (snd (post_update_view clean d (Authenticated (author p)) pk (POST f))) k =
             get_object d k)
       \<and> users (snd (post_update_view clean d (Authenticated (author p)) pk (POST f))) = users d
       \<and> length (posts (snd (post_update_view clean d (Authenticated (author p)) pk (POST f)))) =
           length (posts d)"
proof -
  let ?r = "p\<lparr>title := form_title c, content := form_content c\<rparr>"
  have pk: "pid p = pk" using assms(1) by (rule get_object_pid)
  have get: "post_update_view clean d (Authenticated (author p)) pk GET = (Render (FormPage (Some p)), d)"
    using assms by (simp add: view_defs)
  have post: "post_update_view clean d (Authenticated (author p)) pk (POST f) =
           (Redirect (AbsoluteUrl pk), update_post d ?r)"
    using assms pk by (simp add: view_defs post_update_form_valid_def construct_instance_def)
  have row: "get_object (update_post d ?r) pk = Some ?r"
    using assms(1) pk by (simp add: get_object_update_post)
  have other: "\<forall>k. k \<noteq> pk \<longrightarrow> get_object (update_post d ?r) k = get_object d k"
    using pk by (simp add: get_object_update_post)
  have frame: "users (update_post d ?r) = users d" "length (posts (update_post d ?r)) = length (posts d)"
    by (simp_all add: update_post_def)
  show ?thesis
    using get row other frame unfolding post by simp
qed

text \<open>The test \<^verbatim>\<open>test_post_update_view_authenticated\<close>.\<close>

theorem author_edit_changes_title_and_content_only_witness:
  "get_object test_db 1 = Some test_post \<and> title_required updated_form = Some updated_form
   \<and> post_update_view title_required test_db (Authenticated 1) 1 (POST updated_form) =
       (Redirect (AbsoluteUrl 1),
        test_db\<lparr>posts := [\<lparr>pid = 1, title = ''Updated Post'', content = ''Updated Post Content'',
                            author = 1, date_posted = 100\<rparr>]\<rparr>)"
  using author_edit_changes_title_and_content_only
          [of test_db 1 test_post title_required updated_form updated_form]
  by (simp add: get_object_def test_db_def test_post_def title_required_def updated_form_def
      update_post_def)

section \<open>Listings\<close>

text \<open>The paginator: there is a first page, and the pages together hold every element.\<close>

lemma num_pages_pos: "1 \<le> num_pages n"
  by (simp add: num_pages_def paginate_by_def) 

lemma num_pages_covers: "n \<le> num_pages n * paginate_by"
  by (simp add: num_pages_def paginate_by_def) 

lemma concat_slices: "concat (map (\<lambda>k. take m (drop (k * m) xs)) [0..<n]) = take (n * m) xs"
proof (induction n)
  case 0
  then show ?case by simp
next
  case (Suc n)
  have "Suc n * m = n * m + m"
    by simp
  then have "take (Suc n * m) xs = take (n * m) xs @ take m (drop (n * m) xs)"
    by (simp only: take_add)
  with Suc show ?case by simp
qed

lemma pages_cover: "concat (map (\<lambda>k. take paginate_by (drop (k * paginate_by) xs)) [0..<num_pages (length xs)]) = xs"
  by (simp add: concat_slices num_pages_covers)

lemma paginator_page_valid:
  "1 \<le> n \<Longrightarrow> n \<le> num_pages (length xs) \<Longrightarrow>
   paginator_page xs (int n) = Some (take paginate_by (drop ((n - 1) * paginate_by) xs))"
  by (simp add: paginator_page_def)

lemma paginator_page_invalid:
  "n < 1 \<or> int (num_pages (length xs)) < n \<Longrightarrow> paginator_page xs n = None"
  by (auto simp: paginator_page_def)

lemma paginator_page_Some:
  "paginator_page xs n = Some ps \<Longrightarrow>
   length ps \<le> paginate_by \<and> ps = take paginate_by (drop ((nat n - 1) * paginate_by) xs)"
  by (auto simp: paginator_page_def split: if_splits)

lemma paginate_queryset_Some:
  "paginate_queryset qs pa = Some ps \<Longrightarrow>
   length ps \<le> paginate_by \<and> (\<exists>k. ps = take paginate_by (drop (k * paginate_by) qs))"
  by (cases pa) (auto simp: paginate_queryset_def dest!: paginator_page_Some)

lemma order_by_mset: "mset (order_by_date_posted_desc ps) = mset ps"
  by (simp add: order_by_date_posted_desc_def)

lemma order_by_sorted:
  "sorted_wrt (\<lambda>p q. date_posted q \<le> date_posted p) (order_by_date_posted_desc ps)"
proof -
  have "sorted (map (\<lambda>p. - date_posted p) (order_by_date_posted_desc ps))"
    by (simp add: order_by_date_posted_desc_def)
  then show ?thesis by (simp add: sorted_map)
qed

lemma sorted_wrt_slice: "sorted_wrt P xs \<Longrightarrow> sorted_wrt P (take m (drop k xs))"
  by (intro sorted_wrt_take sorted_wrt_drop)

lemma pages_cover_slices:
  "concat (map (page_slice xs) [1..<Suc (num_pages (length xs))]) = xs"
proof -
  have idx: "[1..<Suc (num_pages (length xs))] = map Suc [0..<num_pages (length xs)]"
    by (simp only: map_Suc_upt One_nat_def)
  have "map (page_slice xs) (map Suc [0..<num_pages (length xs)]) =
        map (\<lambda>k. take paginate_by (drop (k * paginate_by) xs)) [0..<num_pages (length xs)]"
    by (simp add: page_slice_def del: upt_Suc)
  then show ?thesis
    unfolding idx by (simp only: pages_cover)
qed

lemma newest_first_order_by: "newest_first (order_by_date_posted_desc ps)"
  by (simp add: newest_first_def order_by_sorted)

lemma newest_first_page_slice: "newest_first xs \<Longrightarrow> newest_first (page_slice xs n)"
  by (simp add: newest_first_def page_slice_def sorted_wrt_slice)

lemma length_order_by: "length (order_by_date_posted_desc ps) = length ps"
  by (simp add: order_by_date_posted_desc_def)

lemma paged_Some:
  assumes "list_response (paginate_queryset qs pa) = Render (ListPage ps)"
  shows "length ps \<le> 8 \<and> (\<exists>n\<ge>1. ps = page_slice qs n)"
proof -
  from assms have some: "paginate_queryset qs pa = Some ps"
    by (simp add: list_response_def split: option.splits)
  then obtain k where "ps = take paginate_by (drop (k * paginate_by) qs)" and len: "length ps \<le> paginate_by"
    using paginate_queryset_Some by blast
  then have "ps = page_slice qs (Suc k)"
    by (simp add: page_slice_def)
  then show ?thesis
    using len by (auto simp: paginate_by_def)
qed

lemma paged_number:
  assumes "1 \<le> n" and "n \<le> num_pages (length qs)"
  shows "list_response (paginate_queryset qs (PageNumber (int n))) = Render (ListPage (page_slice qs n))"
  using assms by (simp add: list_response_def paginate_queryset_def paginator_page_valid page_slice_def)

lemma paged_default:
  "list_response (paginate_queryset qs NoPageArg) = Render (ListPage (page_slice qs 1))"
  using paginator_page_valid [of 1 qs] num_pages_pos [of "length qs"]
  by (simp add: list_response_def paginate_queryset_def page_slice_def)

lemma ordered_paged:
  fixes ps0 :: "post list"
  defines "qs \<equiv> order_by_date_posted_desc ps0"
  shows "(\<forall>ps. list_response (paginate_queryset qs pa) = Render (ListPage ps) \<longrightarrow>
           length ps \<le> 8 \<and> newest_first ps \<and> (\<exists>n\<ge>1. ps = page_slice qs n))
       \<and> (\<forall>n. 1 \<le> n \<and> n \<le> num_pages (length ps0) \<longrightarrow>
           list_response (paginate_queryset qs (PageNumber (int n))) = Render (ListPage (page_slice qs n)))
       \<and> concat (map (page_slice qs) [1..<Suc (num_pages (length ps0))]) = qs
       \<and> mset qs = mset ps0 \<and> newest_first qs"
proof -
  have len: "length qs = length ps0" by (simp add: qs_def length_order_by)
  have nf: "newest_first qs" by (simp add: qs_def newest_first_order_by)
  have a: "\<forall>ps. list_response (paginate_queryset qs pa) = Render (ListPage ps) \<longrightarrow>
           length ps \<le> 8 \<and> newest_first ps \<and> (\<exists>n\<ge>1. ps = page_slice qs n)"
    using paged_Some [of qs pa] nf newest_first_page_slice by blast
  have b: "\<forall>n. 1 \<le> n \<and> n \<le> num_pages (length ps0) \<longrightarrow>
           list_response (paginate_queryset qs (PageNumber (int n))) = Render (ListPage (page_slice qs n))"
    using paged_number [of _ qs] len by simp
  have c: "concat (map (page_slice qs) [1..<Suc (num_pages (length ps0))]) = qs"
    using pages_cover_slices [of qs] len by simp
  have d: "mset qs = mset ps0" by (simp add: qs_def order_by_mset)
  show ?thesis using a b c d nf by blast
qed

lemmas listing_defs = post_list_view_def user_post_list_view_def user_post_list_get_queryset_def
  get_user_or_404_def list_response_def paginate_queryset_def paginator_page_def
  num_pages_def paginate_by_def order_by_date_posted_desc_def page_slice_def

text \<open>
  C7, as the code has it. For the two class-based listings: a page that
  \<^verbatim>\<open>PostListView\<close> serves holds at most 8 posts, newest first, and is a page of the
  list of all posts ordered by timestamp descending; every page number from 1 to the
  number of pages is served; the pages together are that ordered list, which holds
  exactly the posts of the table. For a username that resolves to a user,
  \<^verbatim>\<open>UserPostListView\<close> does the same with exactly the posts of that author. The function
  view \<^verbatim>\<open>home\<close> hands all posts to the template in one list, without pages.
\<close>

theorem class_based_listings_ordered_and_paged:
  "(\<forall>ps. post_list_view d a pa = Render (ListPage ps) \<longrightarrow>
       length ps \<le> 8 \<and> newest_first ps
     \<and> (\<exists>n\<ge>1. ps = page_slice (order_by_date_posted_desc (posts d)) n))
   \<and> (\<forall>n. 1 \<le> n \<and> n \<le> num_pages (length (posts d)) \<longrightarrow>
         post_list_view d a (PageNumber (int n)) =
           Render (ListPage (page_slice (order_by_date_posted_desc (posts d)) n)))
   \<and> concat (map (page_slice (order_by_date_posted_desc (posts d)))
               [1..<Suc (num_pages (length (posts d)))]) = order_by_date_posted_desc (posts d)
   \<and> mset (order_by_date_posted_desc (posts d)) = mset (posts d)
   \<and> newest_first (order_by_date_posted_desc (posts d))
   \<and> (\<forall>u. get_user_or_404 d name = Some u \<longrightarrow>
        (\<forall>ps. user_post_list_view d a name pa = Render (ListPage ps) \<longrightarrow>
             length ps \<le> 8 \<and> newest_first ps
           \<and> (\<exists>n\<ge>1. ps = page_slice (order_by_date_posted_desc
                                         (filter (\<lambda>p. author p = uid u) (posts d))) n))
      \<and> (\<forall>n. 1 \<le> n \<and> n \<le> num_pages (length (filter (\<lambda>p. author p = uid u) (posts d))) \<longrightarrow>
            user_post_list_view d a name (PageNumber (int n)) =
              Render (ListPage (page_slice (order_by_date_posted_desc
                                              (filter (\<lambda>p. author p = uid u) (posts d))) n)))
      \<and> concat (map (page_slice (order_by_date_posted_desc
                                   (filter (\<lambda>p. author p = uid u) (posts d))))
                  [1..<Suc (num_pages (length (filter (\<lambda>p. author p = uid u) (posts d))))]) =
          order_by_date_posted_desc (filter (\<lambda>p. author p = uid u) (posts d))
      \<and> mset (order_by_date_posted_desc (filter (\<lambda>p. author p = uid u) (posts d))) =
          filter_mset (\<lambda>p. author p = uid u) (mset (posts d)))
   \<and> home d a = Render (ListPage (posts d))"
proof -
  have all: "(\<forall>ps. post_list_view d a pa = Render (ListPage ps) \<longrightarrow>
       length ps \<le> 8 \<and> newest_first ps
     \<and> (\<exists>n\<ge>1. ps = page_slice (order_by_date_posted_desc (posts d)) n))
   \<and> (\<forall>n. 1 \<le> n \<and> n \<le> num_pages (length (posts d)) \<longrightarrow>
         post_list_view d a (PageNumber (int n)) =
           Render (ListPage (page_slice (order_by_date_posted_desc (posts d)) n)))
   \<and> concat (map (page_slice (order_by_date_posted_desc (posts d)))
               [1..<Suc (num_pages (length (posts d)))]) = order_by_date_posted_desc (posts d)
   \<and> mset (order_by_date_posted_desc (posts d)) = mset (posts d)
   \<and> newest_first (order_by_date_posted_desc (posts d))"
    unfolding post_list_view_def by (rule ordered_paged)
  have mine: "\<And>u. get_user_or_404 d name = Some u \<Longrightarrow>
        (\<forall>ps. user_post_list_view d a name pa = Render (ListPage ps) \<longrightarrow>
             length ps \<le> 8 \<and> newest_first ps
           \<and> (\<exists>n\<ge>1. ps = page_slice (order_by_date_posted_desc
                                         (filter (\<lambda>p. author p = uid u) (posts d))) n))
      \<and> (\<forall>n. 1 \<le> n \<and> n \<le> num_pages (length (filter (\<lambda>p. author p = uid u) (posts d))) \<longrightarrow>
            user_post_list_view d a name (PageNumber (int n)) =
              Render (ListPage (page_slice (order_by_date_posted_desc
                                              (filter (\<lambda>p. author p = uid u) (posts d))) n)))
      \<and> concat (map (page_slice (order_by_date_posted_desc
                                   (filter (\<lambda>p. author p = uid u) (posts d))))
                  [1..<Suc (num_pages (length (filter (\<lambda>p. author p = uid u) (posts d))))]) =
          order_by_date_posted_desc (filter (\<lambda>p. author p = uid u) (posts d))
      \<and> mset (order_by_date_posted_desc (filter (\<lambda>p. author p = uid u) (posts d))) =
          filter_mset (\<lambda>p. author p = uid u) (mset (posts d))"
  proof -
    fix u
    assume u: "get_user_or_404 d name = Some u"
    have view: "\<And>pg. user_post_list_view d a name pg =
        list_response (paginate_queryset
          (order_by_date_posted_desc (filter (\<lambda>p. author p = uid u) (posts d))) pg)"
      using u by (simp add: user_post_list_view_def user_post_list_get_queryset_def)
    show "?thesis u"
      unfolding view
      using ordered_paged [of "filter (\<lambda>p. author p = uid u) (posts d)" pa]
      by simp
  qed
  have h: "home d a = Render (ListPage (posts d))"
    by (simp add: home_def)
  show ?thesis
    using all mine h by blast
qed

text \<open>
  Nine posts of \<^verbatim>\<open>testuser\<close>: the first page has the eight newest, the second the
  oldest, a third page does not exist.
\<close>

theorem class_based_listings_ordered_and_paged_witness:
  "map_option uid (get_user_or_404 nine_posts ''testuser'') = Some 1
   \<and> (2::nat) \<le> num_pages (length (posts nine_posts))
   \<and> (\<exists>ps. post_list_view nine_posts Anonymous NoPageArg = Render (ListPage ps)
           \<and> map pid ps = [9, 8, 7, 6, 5, 4, 3, 2])
   \<and> (\<exists>ps. post_list_view nine_posts Anonymous (PageNumber 2) = Render (ListPage ps)
           \<and> map pid ps = [1])
   \<and> (\<exists>ps. user_post_list_view nine_posts Anonymous ''testuser'' (PageNumber 2) =
             Render (ListPage ps) \<and> map pid ps = [1])
   \<and> post_list_view nine_posts Anonymous (PageNumber 3) = NotFound"
  using class_based_listings_ordered_and_paged
          [of nine_posts Anonymous "PageNumber 2" "''testuser''"]
  by (simp add: listing_defs nine_posts_def test_db_def)

text \<open>The same nine posts through \<^verbatim>\<open>home\<close>: nine posts in one response.\<close>

theorem home_listing_counterexample:
  "home nine_posts Anonymous = Render (ListPage (posts nine_posts))
   \<and> length (posts nine_posts) = 9
   \<and> \<not> length (posts nine_posts) \<le> paginate_by"
  by (simp add: home_def nine_posts_def paginate_by_def)

text \<open>
  C8. The list view and the detail view answer every requester as they answer the
  anonymous one, and never with the forbidden response or the redirect to the login
  page: without a page parameter the list view serves the first page (status 200), and
  the detail view serves every existing post (status 200).
\<close>

theorem public_reads_need_no_login:
  "post_list_view d a pa = post_list_view d Anonymous pa
   \<and> post_detail_view d a pk = post_detail_view d Anonymous pk
   \<and> post_list_view d Anonymous pa \<noteq> Forbidden
   \<and> post_list_view d Anonymous pa \<noteq> Redirect LoginUrl
   \<and> post_detail_view d Anonymous pk \<noteq> Forbidden
   \<and> post_detail_view d Anonymous pk \<noteq> Redirect LoginUrl
   \<and> post_list_view d Anonymous NoPageArg =
        Render (ListPage (take 8 (order_by_date_posted_desc (posts d))))
   \<and> status_code (post_list_view d Anonymous NoPageArg) = 200
   \<and> (\<forall>p. get_object d pk = Some p \<longrightarrow>
          post_detail_view d Anonymous pk = Render (DetailPage p)
        \<and> status_code (post_detail_view d Anonymous pk) = 200)"
  by (auto simp: post_list_view_def post_detail_view_def list_response_def
      paginate_queryset_def paginator_page_def num_pages_def paginate_by_def
      split: option.splits page_arg.splits)

text \<open>The test \<^verbatim>\<open>test_post_detail_view\<close>, which does not log in.\<close>

theorem public_reads_need_no_login_witness:
  "get_object test_db 1 = Some test_post
   \<and> post_detail_view test_db Anonymous 1 = Render (DetailPage test_post)
   \<and> post_list_view test_db Anonymous NoPageArg = Render (ListPage [test_post])"
  using public_reads_need_no_login [of test_db Anonymous NoPageArg 1]
  by (simp add: get_object_def test_db_def test_post_def order_by_date_posted_desc_def)

text \<open>
  C10. When no user has the username of the URL, the author-filtered listing answers
  with not found (status 404), whatever the requester and the page, and not with an
  empty list.
\<close>

theorem unknown_username_not_found:
  assumes "name \<notin> set (map username (users d))"
  shows "user_post_list_view d a name pa = NotFound
       \<and> status_code (user_post_list_view d a name pa) = 404
       \<and> user_post_list_view d a name pa \<noteq> Render (ListPage [])"
proof -
  have "get_user_or_404 d name = None"
    using assms by (auto simp: get_user_or_404_def find_None_iff)
  then show ?thesis
    by (simp add: user_post_list_view_def user_post_list_get_queryset_def)
qed

text \<open>
  Nobody is called \<^verbatim>\<open>nobody\<close>: 404. The user \<^verbatim>\<open>anotheruser\<close> exists and has no post:
  an empty list.
\<close>

theorem unknown_username_not_found_witness:
  "''nobody'' \<notin> set (map username (users test_db))
   \<and> user_post_list_view test_db Anonymous ''nobody'' NoPageArg = NotFound
   \<and> user_post_list_view test_db Anonymous ''anotheruser'' NoPageArg = Render (ListPage [])"
  using unknown_username_not_found [of "''nobody''" test_db Anonymous NoPageArg]
  by (simp add: test_db_def test_post_def listing_defs)

section \<open>Registration and profile: the lifecycle of the spec\<close>

text \<open>
  C5. In the registration modelled from the spec: a successful registration appends
  exactly one user, with the username and email of the form, and exactly one profile,
  which refers to that user; it adds exactly the one confirmation message; and it leaves
  the session as it was, so nobody is logged in by it. A form without validation errors
  succeeds. A failed registration changes nothing. So after any registration either both
  tables are what they were or both have grown by one row.
\<close>

theorem registration_creates_pair_one_message_no_login:
  "(\<forall>u s'. register r s f = (Inr u, s') \<longrightarrow>
       users (store s') = users (store s) @ [u]
     \<and> profiles (store s') = profiles (store s) @ [\<lparr>profile_user = uid u, image = None\<rparr>]
     \<and> length (users (store s')) = Suc (length (users (store s)))
     \<and> length (profiles (store s')) = Suc (length (profiles (store s)))
     \<and> username u = reg_username f \<and> email u = reg_email f
     \<and> messages s' = messages s @ [''Your account has been created! You are now able to login'']
     \<and> session s' = session s)
   \<and> (register_errors r (store s) f = [] \<longrightarrow> (\<exists>u s'. register r s f = (Inr u, s')))
   \<and> (\<forall>es s'. register r s f = (Inl es, s') \<longrightarrow> s' = s)
   \<and> ((users (store (snd (register r s f))) = users (store s)
        \<and> profiles (store (snd (register r s f))) = profiles (store s))
      \<or> (length (users (store (snd (register r s f)))) = Suc (length (users (store s)))
        \<and> length (profiles (store (snd (register r s f)))) = Suc (length (profiles (store s)))))"
  by (auto simp: register_def create_user_with_profile_def confirmation_def Let_def
      split: list.splits)

text \<open>The data of \<^verbatim>\<open>test_user_register_view\<close> and \<^verbatim>\<open>test_messages_after_registration\<close>.\<close>

theorem registration_creates_pair_one_message_no_login_witness:
  "register_errors sample_rules (store empty_site) newuser_form = []
   \<and> register sample_rules empty_site newuser_form =
       (Inr \<lparr>uid = 1, username = ''newuser'', email = ''newuser@example.com'',
              credential = ''hash:newpassword123''\<rparr>,
        \<lparr>store = \<lparr>users = [\<lparr>uid = 1, username = ''newuser'', email = ''newuser@example.com'',
                             credential = ''hash:newpassword123''\<rparr>],
                   profiles = [\<lparr>profile_user = 1, image = None\<rparr>],
                   posts = [], next_uid = 2, next_pid = 1\<rparr>,
         session = Anonymous,
         messages = [''Your account has been created! You are now able to login'']\<rparr>)"
  using registration_creates_pair_one_message_no_login [of sample_rules empty_site newuser_form]
  by (simp add: register_def register_errors_def create_user_with_profile_def confirmation_def
      sample_rules_def empty_site_def newuser_form_def Let_def)

text \<open>
  C6. In the registration modelled from the spec: when the email of the form is not
  syntactically valid, the registration fails, its errors hold
  \<^verbatim>\<open>Enter a valid email address.\<close> for the email field, and users and profiles are what
  they were.
\<close>

theorem invalid_email_rejected:
  assumes "\<not> email_wf r (reg_email f)"
  shows "(\<exists>es. register r s f = (Inl es, s)
            \<and> (EmailField, ''Enter a valid email address.'') \<in> set es)
       \<and> users (store (snd (register r s f))) = users (store s)
       \<and> profiles (store (snd (register r s f))) = profiles (store s)"
proof -
  have mem: "(EmailField, ''Enter a valid email address.'') \<in> set (register_errors r (store s) f)"
    using assms by (simp add: register_errors_def)
  then obtain e es where es: "register_errors r (store s) f = e # es"
    by (cases "register_errors r (store s) f") auto
  then have "register r s f = (Inl (register_errors r (store s) f), s)"
    by (simp add: register_def)
  then show ?thesis using mem by simp
qed

text \<open>The data of \<^verbatim>\<open>test_invalid_user_register_view\<close>: the email \<^verbatim>\<open>invalidemail\<close>.\<close>

theorem invalid_email_rejected_witness:
  "\<not> email_wf sample_rules (reg_email invalid_email_form)
   \<and> register sample_rules empty_site invalid_email_form =
       (Inl [(EmailField, ''Enter a valid email address.'')], empty_site)
   \<and> users (store empty_site) = []"
  using invalid_email_rejected [of sample_rules invalid_email_form empty_site]
  by (simp add: register_def register_errors_def sample_rules_def empty_site_def
      invalid_email_form_def)

text \<open>
  C9. In the profile-image update modelled from the spec: an upload that is not a valid
  image is rejected with \<^verbatim>\<open>Upload a valid image.\<close> for the image field, and the database,
  hence the image reference of every profile, is what it was.
\<close>

theorem invalid_image_rejected:
  assumes "\<not> image_wf r f"
  shows "update_profile_image r d u (Some f) = (Inl [(ImageField, ''Upload a valid image.'')], d)
       \<and> profiles (snd (update_profile_image r d u (Some f))) = profiles d"
  using assms by (simp add: update_profile_image_def)

text \<open>
  The upload of \<^verbatim>\<open>test_profile_update_form\<close>: a file called \<^verbatim>\<open>test_image.jpg\<close> whose
  content is the text \<^verbatim>\<open>file_content\<close>.
\<close>

theorem invalid_image_rejected_witness:
  "\<not> image_wf sample_rules test_image
   \<and> update_profile_image sample_rules test_db 1 (Some test_image) =
       (Inl [(ImageField, ''Upload a valid image.'')], test_db)
   \<and> map image (profiles test_db) = [None, None]"
  using invalid_image_rejected [of sample_rules test_image test_db 1]
  by (simp add: sample_rules_def test_image_def test_db_def)

end
